theory Spec2Isabelle
  imports Main "HOL-Library.Code_Target_Nat"
begin

section \<open>Strings\<close>

text \<open>
  A TypeScript string is a sequence of UTF-16 code units. The calculator's display
  symbols lie outside ASCII (the buttons insert U+03C0 and U+221A, the normaliser also
  looks for U+00D7 and U+00F7), and \<open>slice(0, -1)\<close> removes one code unit, so a string
  is modelled as the list of its code units. \<open>js\<close> embeds an ASCII literal.
\<close>

type_synonym jstring = "nat list"

definition js :: "string \<Rightarrow> jstring" where
  "js s = map of_char s"

definition timesSign :: nat where "timesSign = 215"
definition divisionSign :: nat where "divisionSign = 247"
definition greekPi :: nat where "greekPi = 960"
definition radicalSign :: nat where "radicalSign = 8730"

section \<open>Regular expressions and \<open>String.prototype.replace\<close>\<close>

text \<open>
  The normaliser is a chain of global regular-expression replacements. The patterns
  it uses are built from literal text, three character classes under \<open>+\<close>, sequence,
  alternation, \<open>?\<close> and capture groups; \<open>regex\<close> is the syntax of exactly that fragment.
\<close>

datatype cclass = Digit | DigitOrDot | NotCloseParen

fun inClass :: "cclass \<Rightarrow> nat \<Rightarrow> bool" where
  "inClass Digit c = (48 \<le> c \<and> c \<le> 57)"
| "inClass DigitOrDot c = ((48 \<le> c \<and> c \<le> 57) \<or> c = 46)"
| "inClass NotCloseParen c = (c \<noteq> 41)"

datatype regex =
    Lit jstring
  | Many cclass
  | Cat regex regex
  | Alt regex regex
  | Opt regex
  | Grp nat regex

type_synonym captures = "nat \<Rightarrow> jstring"

text \<open>
  \<open>matches r (c, s)\<close> lists every way \<open>r\<close> can match a prefix of \<open>s\<close>, in the order a
  backtracking matcher tries them (a greedy \<open>+\<close> tries the longest run first, \<open>?\<close> tries
  its body before skipping it, an alternation its left branch first), each with the
  captures and the text left over. The head of the list is the match JavaScript takes.
\<close>

fun matches :: "regex \<Rightarrow> captures \<times> jstring \<Rightarrow> (captures \<times> jstring) list" where
  "matches (Lit w) (c, s) = (if take (length w) s = w then [(c, drop (length w) s)] else [])"
| "matches (Many k) (c, s) =
     map (\<lambda>n. (c, drop n s)) (rev [1 ..< Suc (length (takeWhile (inClass k) s))])"
| "matches (Cat r1 r2) x = concat (map (matches r2) (matches r1 x))"
| "matches (Alt r1 r2) x = matches r1 x @ matches r2 x"
| "matches (Opt r) x = matches r x @ [x]"
| "matches (Grp i r) (c, s) =
     map (\<lambda>(c', t). (c'(i := take (length s - length t) s), t)) (matches r (c, s))"

text \<open>A replacement is text with references \<open>$n\<close> to capture groups.\<close>

datatype piece = Txt jstring | Ref nat

fun expand :: "captures \<Rightarrow> piece list \<Rightarrow> jstring" where
  "expand c [] = []"
| "expand c (Txt w # ps) = w @ expand c ps"
| "expand c (Ref i # ps) = c i @ expand c ps"

text \<open>
  \<open>replaceFrom r rep k s\<close> is the scan of a global replace: \<open>k\<close> counts the code units
  of \<open>s\<close> that still belong to the match replaced last. At every other position the
  pattern is tried; a match is replaced and the scan resumes behind it, otherwise the
  code unit is copied. An empty match is replaced and the scan moves one unit on.
\<close>

fun replaceFrom :: "regex \<Rightarrow> piece list \<Rightarrow> nat \<Rightarrow> jstring \<Rightarrow> jstring" where
  "replaceFrom r rep k [] =
     (if k = 0 then (case matches r (\<lambda>_. [], []) of [] \<Rightarrow> [] | (c, _) # _ \<Rightarrow> expand c rep)
      else [])"
| "replaceFrom r rep (Suc k) (x # xs) = replaceFrom r rep k xs"
| "replaceFrom r rep 0 (x # xs) =
     (case matches r (\<lambda>_. [], x # xs) of
        [] \<Rightarrow> x # replaceFrom r rep 0 xs
      | (c, t) # _ \<Rightarrow>
          (if length t = Suc (length xs) then expand c rep @ x # replaceFrom r rep 0 xs
           else expand c rep @ replaceFrom r rep (length xs - length t) xs))"

definition replaceAll :: "regex \<Rightarrow> piece list \<Rightarrow> jstring \<Rightarrow> jstring" where
  "replaceAll r rep s = replaceFrom r rep 0 s"

section \<open>The normaliser of \<open>handleCalculate\<close>\<close>

text \<open>The four literal substitutions of the first statement.\<close>

definition substituteSymbols :: "jstring \<Rightarrow> jstring" where
  "substituteSymbols evalExpr =
     replaceAll (Lit (js ''e'')) [Txt (js ''Math.E'')]
       (replaceAll (Lit [greekPi]) [Txt (js ''Math.PI'')]
         (replaceAll (Lit [divisionSign]) [Txt (js ''/'')]
           (replaceAll (Lit [timesSign]) [Txt (js ''*'')] evalExpr)))"

text \<open>\<open>(\d+(\.\d+)?)\<close>, with the two groups numbered as in the pattern they occur in.\<close>

definition decimalNumber :: "nat \<Rightarrow> nat \<Rightarrow> regex" where
  "decimalNumber i j = Grp i (Cat (Many Digit) (Opt (Grp j (Cat (Lit (js ''.'')) (Many Digit)))))"

definition powerPattern :: regex where
  "powerPattern = Cat (decimalNumber 1 2) (Cat (Lit (js ''^'')) (decimalNumber 3 4))"

definition rewritePower :: "jstring \<Rightarrow> jstring" where
  "rewritePower evalExpr =
     replaceAll powerPattern [Txt (js ''Math.pow(''), Ref 1, Txt (js '', ''), Ref 3, Txt (js '')'')]
       evalExpr"

definition rootGroupPattern :: regex where
  "rootGroupPattern =
     Cat (Lit [radicalSign]) (Cat (Lit (js ''('')) (Cat (Grp 1 (Many NotCloseParen)) (Lit (js '')''))))"

definition rootDigitsPattern :: regex where
  "rootDigitsPattern = Cat (Lit [radicalSign]) (Grp 1 (Many Digit))"

definition rewriteRoot :: "jstring \<Rightarrow> jstring" where
  "rewriteRoot evalExpr =
     replaceAll rootDigitsPattern [Txt (js ''Math.sqrt(''), Ref 1, Txt (js '')'')]
       (replaceAll rootGroupPattern [Txt (js ''Math.sqrt(''), Ref 1, Txt (js '')'')] evalExpr)"

definition mathFuncs :: "string list" where
  "mathFuncs = [''sin'', ''cos'', ''tan'', ''log'', ''log10'', ''abs'']"

text \<open>\<open>func\(([0-9.]+|\([^)]+\))\)\<close>, the pattern of the degree conversion.\<close>

definition degreePattern :: "string \<Rightarrow> regex" where
  "degreePattern func =
     Cat (Lit (js func))
       (Cat (Lit (js ''(''))
         (Cat (Grp 1 (Alt (Many DigitOrDot)
                          (Cat (Lit (js ''('')) (Cat (Many NotCloseParen) (Lit (js '')''))))))
              (Lit (js '')''))))"

text \<open>The body of the \<open>forEach\<close> callback: one function name, applied to \<open>evalExpr\<close>.\<close>

definition convertFunc :: "bool \<Rightarrow> string \<Rightarrow> jstring \<Rightarrow> jstring" where
  "convertFunc isRad func evalExpr =
     (if func = ''log'' then
        replaceAll (Lit (js ''ln('')) [Txt (js ''Math.log('')] evalExpr
      else if func = ''log10'' then
        replaceAll (Lit (js ''log('')) [Txt (js ''Math.log10('')] evalExpr
      else if func \<in> set [''sin'', ''cos'', ''tan''] \<and> \<not> isRad then
        replaceAll (degreePattern func)
          [Txt (js ''Math.''), Txt (js func), Txt (js ''((''), Ref 1, Txt (js '') * Math.PI / 180)'')]
          evalExpr
      else
        replaceAll (Cat (Lit (js func)) (Lit (js ''(''))) [Txt (js ''Math.''), Txt (js func), Txt (js ''('')]
          evalExpr)"

definition normalizeExpr :: "bool \<Rightarrow> jstring \<Rightarrow> jstring" where
  "normalizeExpr isRad expression =
     fold (convertFunc isRad) mathFuncs (rewriteRoot (rewritePower (substituteSymbols expression)))"

section \<open>Numbers\<close>

text \<open>
  The runtime computes in IEEE-754 double precision. The model holds the doubles on
  which that arithmetic is exact: the signed integers of magnitude at most \<open>2^53\<close>
  (with both zeros), the two infinities and NaN. An operation whose exact result is
  such a value returns it, as correct rounding demands; any other result is
  \<open>Unmodelled\<close>, and nothing is said about it.
\<close>

datatype magnitude = Finite nat | Infinite

datatype jsnum = NaN | Sgn bool magnitude

datatype jserror = SyntaxError | ReferenceError | TypeError

datatype 'a outcome = Ok 'a | Throws jserror | Unmodelled

fun bind :: "'a outcome \<Rightarrow> ('a \<Rightarrow> 'b outcome) \<Rightarrow> 'b outcome" where
  "bind (Ok x) f = f x"
| "bind (Throws e) f = Throws e"
| "bind Unmodelled f = Unmodelled"

definition exactly :: "bool \<Rightarrow> nat \<Rightarrow> jsnum outcome" where
  "exactly negative n = (if n \<le> 2 ^ 53 then Ok (Sgn negative (Finite n)) else Unmodelled)"

fun jsAdd :: "jsnum \<Rightarrow> jsnum \<Rightarrow> jsnum outcome" where
  "jsAdd NaN y = Ok NaN"
| "jsAdd (Sgn s a) NaN = Ok NaN"
| "jsAdd (Sgn s Infinite) (Sgn t Infinite) = Ok (if s = t then Sgn s Infinite else NaN)"
| "jsAdd (Sgn s Infinite) (Sgn t (Finite n)) = Ok (Sgn s Infinite)"
| "jsAdd (Sgn s (Finite m)) (Sgn t Infinite) = Ok (Sgn t Infinite)"
| "jsAdd (Sgn s (Finite m)) (Sgn t (Finite n)) =
     (if s = t then exactly s (m + n)
      else if n < m then exactly s (m - n)
      else if m < n then exactly t (n - m)
      else Ok (Sgn False (Finite 0)))"

fun jsNegate :: "jsnum \<Rightarrow> jsnum" where
  "jsNegate NaN = NaN"
| "jsNegate (Sgn s a) = Sgn (\<not> s) a"

definition jsSubtract :: "jsnum \<Rightarrow> jsnum \<Rightarrow> jsnum outcome" where
  "jsSubtract x y = jsAdd x (jsNegate y)"

fun jsMultiply :: "jsnum \<Rightarrow> jsnum \<Rightarrow> jsnum outcome" where
  "jsMultiply NaN y = Ok NaN"
| "jsMultiply (Sgn s a) NaN = Ok NaN"
| "jsMultiply (Sgn s Infinite) (Sgn t Infinite) = Ok (Sgn (s \<noteq> t) Infinite)"
| "jsMultiply (Sgn s Infinite) (Sgn t (Finite n)) = Ok (if n = 0 then NaN else Sgn (s \<noteq> t) Infinite)"
| "jsMultiply (Sgn s (Finite m)) (Sgn t Infinite) = Ok (if m = 0 then NaN else Sgn (s \<noteq> t) Infinite)"
| "jsMultiply (Sgn s (Finite m)) (Sgn t (Finite n)) = exactly (s \<noteq> t) (m * n)"

fun jsDivide :: "jsnum \<Rightarrow> jsnum \<Rightarrow> jsnum outcome" where
  "jsDivide NaN y = Ok NaN"
| "jsDivide (Sgn s a) NaN = Ok NaN"
| "jsDivide (Sgn s Infinite) (Sgn t Infinite) = Ok NaN"
| "jsDivide (Sgn s Infinite) (Sgn t (Finite n)) = Ok (Sgn (s \<noteq> t) Infinite)"
| "jsDivide (Sgn s (Finite m)) (Sgn t Infinite) = Ok (Sgn (s \<noteq> t) (Finite 0))"
| "jsDivide (Sgn s (Finite m)) (Sgn t (Finite n)) =
     (if n = 0 then Ok (if m = 0 then NaN else Sgn (s \<noteq> t) Infinite)
      else if n dvd m then exactly (s \<noteq> t) (m div n)
      else Unmodelled)"

text \<open>\<open>Math.round\<close>: every value of the model is an integer, an infinity or NaN already.\<close>

definition mathRound :: "jsnum \<Rightarrow> jsnum" where
  "mathRound x = x"

fun decimal :: "nat \<Rightarrow> jstring" where
  "decimal n = (if n < 10 then [48 + n] else decimal (n div 10) @ [48 + n mod 10])"

declare decimal.simps [simp del]

text \<open>\<open>String(x)\<close> on a number: integers below \<open>10^21\<close> print their digits, both zeros print \<open>0\<close>.\<close>

fun numberToString :: "jsnum \<Rightarrow> jstring" where
  "numberToString NaN = js ''NaN''"
| "numberToString (Sgn s Infinite) = (if s then js ''-Infinity'' else js ''Infinity'')"
| "numberToString (Sgn s (Finite n)) =
     (if n = 0 then js ''0'' else if s then js ''-'' @ decimal n else decimal n)"

section \<open>The expression language run by \<open>new Function\<close>\<close>

text \<open>
  \<open>handleCalculate\<close> hands the normalised text to the JavaScript runtime as the body
  \<open>return <text>\<close> of a new function and calls it. The model covers the part of the
  language the normaliser produces: decimal literals, the globals \<open>Math\<close>, \<open>Infinity\<close>,
  \<open>NaN\<close> and \<open>undefined\<close>, the calculator's function names where the normaliser leaves
  them bare (they are bound nowhere), property access, calls, unary and binary
  \<open>+ - * /\<close>, parentheses and the line comment \<open>//\<close>. Text that leaves this part
  (another character, a block comment, a regular expression literal, \<open>++\<close>, \<open>--\<close>,
  \<open>**\<close>, an exponent or legacy octal literal, any other name, the comma operator) is
  \<open>Unmodelled\<close>.
\<close>

datatype token =
    TNumber jstring jstring
  | TName jstring
  | TOpen | TClose | TDot | TComma | TPlus | TMinus | TStar | TSlash

definition isDigit :: "nat \<Rightarrow> bool" where
  "isDigit c = (48 \<le> c \<and> c \<le> 57)"

definition isLetter :: "nat \<Rightarrow> bool" where
  "isLetter c = ((65 \<le> c \<and> c \<le> 90) \<or> (97 \<le> c \<and> c \<le> 122))"

definition isNamePart :: "nat \<Rightarrow> bool" where
  "isNamePart c = (isLetter c \<or> isDigit c)"

fun nextIs :: "(nat \<Rightarrow> bool) \<Rightarrow> jstring \<Rightarrow> bool" where
  "nextIs p [] = False"
| "nextIs p (c # cs) = p c"

fun push :: "token \<Rightarrow> token list outcome \<Rightarrow> token list outcome" where
  "push t (Ok ts) = Ok (t # ts)"
| "push t (Throws e) = Throws e"
| "push t Unmodelled = Unmodelled"

text \<open>
  A numeric literal must not be followed at once by a letter; the letters that would
  continue it as another kind of literal (exponent, BigInt, radix prefix) are left out
  of the model.
\<close>

definition numberToken :: "jstring \<Rightarrow> jstring \<Rightarrow> jstring \<Rightarrow> token list outcome \<Rightarrow> token list outcome" where
  "numberToken whole fraction rest more =
     (if nextIs isLetter rest then
        (if nextIs (\<lambda>c. c \<in> set (js ''eEnxXbBoO'')) rest then Unmodelled else Throws SyntaxError)
      else push (TNumber whole fraction) more)"

definition globalNames :: "jstring list" where
  "globalNames = [js ''Math'', js ''Infinity'', js ''NaN'', js ''undefined'']"

text \<open>
  The names of \<open>mathFuncs\<close> and \<open>ln\<close>. Neither the language nor the page binds them, so
  reading one that the normaliser has not rewritten throws a ReferenceError.
\<close>

definition unboundNames :: "jstring list" where
  "unboundNames = [js ''sin'', js ''cos'', js ''tan'', js ''log'', js ''log10'', js ''abs'', js ''ln'']"

text \<open>A line comment runs to the next line terminator; the body has none of its own.\<close>

definition isLineTerminator :: "nat \<Rightarrow> bool" where
  "isLineTerminator c = (c = 10 \<or> c = 13 \<or> c = 8232 \<or> c = 8233)"

text \<open>A \<open>/\<close> divides only behind an operand; elsewhere it would open a regular expression.\<close>

fun endsOperand :: "token option \<Rightarrow> bool" where
  "endsOperand (Some (TNumber w f)) = True"
| "endsOperand (Some (TName x)) = True"
| "endsOperand (Some TClose) = True"
| "endsOperand t = False"

text \<open>\<open>tokenize prev s\<close>: the tokens of \<open>s\<close>, where \<open>prev\<close> is the token before \<open>s\<close>.\<close>

function tokenize :: "token option \<Rightarrow> jstring \<Rightarrow> token list outcome" where
  "tokenize prev [] = Ok []"
| "tokenize prev (c # cs) =
     (if c = 32 then tokenize prev cs
      else if isDigit c then
        (if c = 48 \<and> nextIs isDigit cs then Unmodelled
         else if nextIs (\<lambda>d. d = 46) (dropWhile isDigit cs) then
           numberToken (c # takeWhile isDigit cs) (takeWhile isDigit (tl (dropWhile isDigit cs)))
             (dropWhile isDigit (tl (dropWhile isDigit cs)))
             (tokenize (Some (TNumber [] [])) (dropWhile isDigit (tl (dropWhile isDigit cs))))
         else
           numberToken (c # takeWhile isDigit cs) [] (dropWhile isDigit cs)
             (tokenize (Some (TNumber [] [])) (dropWhile isDigit cs)))
      else if c = 46 then
        (if nextIs isDigit cs then
           numberToken [] (takeWhile isDigit cs) (dropWhile isDigit cs)
             (tokenize (Some (TNumber [] [])) (dropWhile isDigit cs))
         else if nextIs (\<lambda>d. d = 46) cs then Unmodelled
         else push TDot (tokenize (Some TDot) cs))
      else if isLetter c then
        (if prev = Some TDot \<or> c # takeWhile isNamePart cs \<in> set (globalNames @ unboundNames) then
           push (TName (c # takeWhile isNamePart cs)) (tokenize (Some (TName [])) (dropWhile isNamePart cs))
         else Unmodelled)
      else if c = 40 then push TOpen (tokenize (Some TOpen) cs)
      else if c = 41 then push TClose (tokenize (Some TClose) cs)
      else if c = 44 then push TComma (tokenize (Some TComma) cs)
      else if c = 43 then
        (if nextIs (\<lambda>d. d = 43) cs then Unmodelled else push TPlus (tokenize (Some TPlus) cs))
      else if c = 45 then
        (if nextIs (\<lambda>d. d = 45) cs then Unmodelled else push TMinus (tokenize (Some TMinus) cs))
      else if c = 42 then
        (if nextIs (\<lambda>d. d = 42) cs then Unmodelled else push TStar (tokenize (Some TStar) cs))
      else if c = 47 then
        (if nextIs (\<lambda>d. d = 47) cs then
           (if list_ex isLineTerminator cs then Unmodelled else Ok [])
         else if endsOperand prev \<and> \<not> nextIs (\<lambda>d. d = 42) cs
         then push TSlash (tokenize (Some TSlash) cs) else Unmodelled)
      else Unmodelled)"
  by pat_completeness auto
termination
proof (relation "measure (\<lambda>(prev, s). length s)")
  fix cs :: jstring
  have "length (dropWhile isDigit (tl (dropWhile isDigit cs))) \<le> length (tl (dropWhile isDigit cs))"
    by (rule length_dropWhile_le)
  also have "\<dots> \<le> length (dropWhile isDigit cs)"
    by simp
  also have "\<dots> \<le> length cs"
    by (rule length_dropWhile_le)
  finally have "length (dropWhile isDigit (tl (dropWhile isDigit cs))) < Suc (length cs)"
    by simp
  note twice = this
  fix prev :: "token option" and c :: nat
  show "((Some (TNumber [] []), dropWhile isDigit (tl (dropWhile isDigit cs))), prev, c # cs)
          \<in> measure (\<lambda>(prev, s). length s)"
    using twice by simp
qed (auto simp: less_Suc_eq_le length_dropWhile_le)

datatype operator = Add | Subtract | Multiply | Divide

datatype expr =
    ELiteral jstring jstring
  | EName jstring
  | EMember expr jstring
  | ECall expr "expr list"
  | ENegate expr
  | EPlus expr
  | EBinary operator expr expr

type_synonym 'a parser = "token list \<Rightarrow> ('a \<times> token list) outcome"

text \<open>
  A recursive-descent parser for
  \<^verbatim>\<open>
  Expression := Term (('+' | '-') Term)*
  Term       := Unary (('*' | '/') Unary)*
  Unary      := ('+' | '-') Unary | Postfix
  Postfix    := Primary ('.' name | '(' Arguments)*
  Primary    := number | name | '(' Expression ')'
  Arguments  := ')' | Expression (')' | ',' Arguments)
  \<close>
  The first argument bounds the depth of the descent; \<open>parseProgram\<close> supplies a bound
  from the number of tokens, and a descent that reaches it is \<open>Unmodelled\<close>.
\<close>

function parseExpression :: "nat \<Rightarrow> expr parser"
  and moreTerms :: "nat \<Rightarrow> expr \<Rightarrow> expr parser"
  and parseTerm :: "nat \<Rightarrow> expr parser"
  and moreFactors :: "nat \<Rightarrow> expr \<Rightarrow> expr parser"
  and parseUnary :: "nat \<Rightarrow> expr parser"
  and parsePrimary :: "nat \<Rightarrow> expr parser"
  and moreSuffixes :: "nat \<Rightarrow> expr \<Rightarrow> expr parser"
  and parseArguments :: "nat \<Rightarrow> (expr list) parser"
where
  "parseExpression 0 ts = Unmodelled"
| "parseExpression (Suc n) ts = bind (parseTerm n ts) (\<lambda>(e, rest). moreTerms n e rest)"
| "moreTerms 0 e ts = Unmodelled"
| "moreTerms (Suc n) e ts =
     (case ts of
        TPlus # ts' \<Rightarrow> bind (parseTerm n ts') (\<lambda>(r, rest). moreTerms n (EBinary Add e r) rest)
      | TMinus # ts' \<Rightarrow> bind (parseTerm n ts') (\<lambda>(r, rest). moreTerms n (EBinary Subtract e r) rest)
      | _ \<Rightarrow> Ok (e, ts))"
| "parseTerm 0 ts = Unmodelled"
| "parseTerm (Suc n) ts = bind (parseUnary n ts) (\<lambda>(e, rest). moreFactors n e rest)"
| "moreFactors 0 e ts = Unmodelled"
| "moreFactors (Suc n) e ts =
     (case ts of
        TStar # ts' \<Rightarrow> bind (parseUnary n ts') (\<lambda>(r, rest). moreFactors n (EBinary Multiply e r) rest)
      | TSlash # ts' \<Rightarrow> bind (parseUnary n ts') (\<lambda>(r, rest). moreFactors n (EBinary Divide e r) rest)
      | _ \<Rightarrow> Ok (e, ts))"
| "parseUnary 0 ts = Unmodelled"
| "parseUnary (Suc n) ts =
     (case ts of
        TPlus # ts' \<Rightarrow> bind (parseUnary n ts') (\<lambda>(e, rest). Ok (EPlus e, rest))
      | TMinus # ts' \<Rightarrow> bind (parseUnary n ts') (\<lambda>(e, rest). Ok (ENegate e, rest))
      | _ \<Rightarrow> bind (parsePrimary n ts) (\<lambda>(e, rest). moreSuffixes n e rest))"
| "parsePrimary 0 ts = Unmodelled"
| "parsePrimary (Suc n) ts =
     (case ts of
        TNumber w f # ts' \<Rightarrow> Ok (ELiteral w f, ts')
      | TName x # ts' \<Rightarrow> Ok (EName x, ts')
      | TOpen # ts' \<Rightarrow>
          bind (parseExpression n ts')
            (\<lambda>(e, rest). case rest of
                            TClose # rest' \<Rightarrow> Ok (e, rest')
                          | TComma # rest' \<Rightarrow> Unmodelled
                          | _ \<Rightarrow> Throws SyntaxError)
      | _ \<Rightarrow> Throws SyntaxError)"
| "moreSuffixes 0 e ts = Unmodelled"
| "moreSuffixes (Suc n) e ts =
     (case ts of
        TDot # ts' \<Rightarrow>
          (case ts' of
             TName x # ts'' \<Rightarrow> moreSuffixes n (EMember e x) ts''
           | _ \<Rightarrow> Throws SyntaxError)
      | TOpen # ts' \<Rightarrow>
          bind (parseArguments n ts') (\<lambda>(args, rest). moreSuffixes n (ECall e args) rest)
      | _ \<Rightarrow> Ok (e, ts))"
| "parseArguments 0 ts = Unmodelled"
| "parseArguments (Suc n) ts =
     (case ts of
        TClose # ts' \<Rightarrow> Ok ([], ts')
      | _ \<Rightarrow>
          bind (parseExpression n ts)
            (\<lambda>(e, rest). case rest of
                            TClose # rest' \<Rightarrow> Ok ([e], rest')
                          | TComma # rest' \<Rightarrow>
                              bind (parseArguments n rest') (\<lambda>(args, rest''). Ok (e # args, rest''))
                          | _ \<Rightarrow> Throws SyntaxError))"
  by pat_completeness auto
termination
  by (relation "measure (case_sum (case_sum (case_sum fst fst) (case_sum fst fst))
                                  (case_sum (case_sum fst fst) (case_sum fst fst)))")
     simp_all

text \<open>The body \<open>return <text>\<close>: an expression up to the end of the text, or nothing.\<close>

definition parseProgram :: "token list \<Rightarrow> expr option outcome" where
  "parseProgram ts =
     (if ts = [] then Ok None
      else bind (parseExpression (6 * length ts + 6) ts)
             (\<lambda>(e, rest). case rest of
                             [] \<Rightarrow> Ok (Some e)
                           | TComma # rest' \<Rightarrow> Unmodelled
                           | _ \<Rightarrow> Throws SyntaxError))"

subsection \<open>Values and the \<open>Math\<close> object\<close>

datatype mathFunction =
  MathPow | MathSqrt | MathSin | MathCos | MathTan | MathLog | MathLog10 | MathAbs

datatype jsvalue = VNumber jsnum | VUndefined | VMath | VBuiltin mathFunction

fun toNumber :: "jsvalue \<Rightarrow> jsnum" where
  "toNumber (VNumber x) = x"
| "toNumber v = NaN"

definition digitsValue :: "jstring \<Rightarrow> nat" where
  "digitsValue ds = fold (\<lambda>d n. 10 * n + (d - 48)) ds 0"

text \<open>A literal denotes a value of the model when its fraction is zero.\<close>

definition literalValue :: "jstring \<Rightarrow> jstring \<Rightarrow> jsnum outcome" where
  "literalValue whole fraction =
     (if list_all (\<lambda>d. d = 48) fraction then exactly False (digitsValue whole) else Unmodelled)"

definition globalValue :: "jstring \<Rightarrow> jsvalue outcome" where
  "globalValue x =
     (if x = js ''Math'' then Ok VMath
      else if x = js ''Infinity'' then Ok (VNumber (Sgn False Infinite))
      else if x = js ''NaN'' then Ok (VNumber NaN)
      else if x = js ''undefined'' then Ok VUndefined
      else if x \<in> set unboundNames then Throws ReferenceError
      else Unmodelled)"

text \<open>
  Reading a property of \<open>undefined\<close> throws a TypeError. \<open>Math\<close> has the functions the
  normaliser names; it has no property \<open>Math\<close>, so that read gives \<open>undefined\<close>. The
  constants \<open>Math.PI\<close> and \<open>Math.E\<close> are doubles outside the model.
\<close>

definition mathProperty :: "jstring \<Rightarrow> jsvalue outcome" where
  "mathProperty x =
     (if x = js ''pow'' then Ok (VBuiltin MathPow)
      else if x = js ''sqrt'' then Ok (VBuiltin MathSqrt)
      else if x = js ''sin'' then Ok (VBuiltin MathSin)
      else if x = js ''cos'' then Ok (VBuiltin MathCos)
      else if x = js ''tan'' then Ok (VBuiltin MathTan)
      else if x = js ''log'' then Ok (VBuiltin MathLog)
      else if x = js ''log10'' then Ok (VBuiltin MathLog10)
      else if x = js ''abs'' then Ok (VBuiltin MathAbs)
      else if x = js ''Math'' then Ok VUndefined
      else Unmodelled)"

fun getProperty :: "jsvalue \<Rightarrow> jstring \<Rightarrow> jsvalue outcome" where
  "getProperty VUndefined x = Throws TypeError"
| "getProperty VMath x = mathProperty x"
| "getProperty v x = Unmodelled"

text \<open>
  The functions of \<open>Math\<close>, on the values of the model. The standard fixes their
  results at zeros, infinities and NaN, and \<open>Math.sqrt\<close> is correctly rounded. For
  \<open>Math.pow\<close>, \<open>Math.log10\<close> and \<open>Math.log\<close> the model gives the result where it is an
  integer (a power of an integer, the logarithm of a power of ten, the logarithm of 1),
  which is what the engines return there; every other argument is \<open>Unmodelled\<close>.
\<close>

fun mathAbs :: "jsnum \<Rightarrow> jsnum outcome" where
  "mathAbs NaN = Ok NaN"
| "mathAbs (Sgn s a) = Ok (Sgn False a)"

fun mathSqrt :: "jsnum \<Rightarrow> jsnum outcome" where
  "mathSqrt NaN = Ok NaN"
| "mathSqrt (Sgn s Infinite) = Ok (if s then NaN else Sgn False Infinite)"
| "mathSqrt (Sgn s (Finite n)) =
     (if n = 0 then Ok (Sgn s (Finite 0))
      else if s then Ok NaN
      else (case find (\<lambda>r. r * r = n) [0 ..< Suc n] of
              Some r \<Rightarrow> Ok (Sgn False (Finite r))
            | None \<Rightarrow> Unmodelled))"

text \<open>
  \<open>Math.pow\<close>: a NaN exponent gives NaN, a zero exponent gives 1 whatever the base;
  otherwise the model covers an integer base under a positive integer exponent.
\<close>

fun mathPow :: "jsnum \<Rightarrow> jsnum \<Rightarrow> jsnum outcome" where
  "mathPow x NaN = Ok NaN"
| "mathPow x (Sgn t Infinite) = Unmodelled"
| "mathPow x (Sgn t (Finite e)) =
     (if e = 0 then Ok (Sgn False (Finite 1))
      else (case x of
              NaN \<Rightarrow> Ok NaN
            | Sgn s Infinite \<Rightarrow> Unmodelled
            | Sgn s (Finite b) \<Rightarrow> if t then Unmodelled else exactly (s \<and> odd e) (b ^ e)))"

fun mathLog10 :: "jsnum \<Rightarrow> jsnum outcome" where
  "mathLog10 NaN = Ok NaN"
| "mathLog10 (Sgn s Infinite) = Ok (if s then NaN else Sgn False Infinite)"
| "mathLog10 (Sgn s (Finite n)) =
     (if n = 0 then Ok (Sgn True Infinite)
      else if s then Ok NaN
      else (case find (\<lambda>k. 10 ^ k = n) [0 ..< 16] of
              Some k \<Rightarrow> Ok (Sgn False (Finite k))
            | None \<Rightarrow> Unmodelled))"

fun mathLog :: "jsnum \<Rightarrow> jsnum outcome" where
  "mathLog NaN = Ok NaN"
| "mathLog (Sgn s Infinite) = Ok (if s then NaN else Sgn False Infinite)"
| "mathLog (Sgn s (Finite n)) =
     (if n = 0 then Ok (Sgn True Infinite)
      else if s then Ok NaN
      else if n = 1 then Ok (Sgn False (Finite 0))
      else Unmodelled)"

fun mathSin :: "jsnum \<Rightarrow> jsnum outcome" where
  "mathSin NaN = Ok NaN"
| "mathSin (Sgn s Infinite) = Ok NaN"
| "mathSin (Sgn s (Finite n)) = (if n = 0 then Ok (Sgn s (Finite 0)) else Unmodelled)"

fun mathTan :: "jsnum \<Rightarrow> jsnum outcome" where
  "mathTan NaN = Ok NaN"
| "mathTan (Sgn s Infinite) = Ok NaN"
| "mathTan (Sgn s (Finite n)) = (if n = 0 then Ok (Sgn s (Finite 0)) else Unmodelled)"

fun mathCos :: "jsnum \<Rightarrow> jsnum outcome" where
  "mathCos NaN = Ok NaN"
| "mathCos (Sgn s Infinite) = Ok NaN"
| "mathCos (Sgn s (Finite n)) = (if n = 0 then Ok (Sgn False (Finite 1)) else Unmodelled)"

text \<open>A missing argument is \<open>undefined\<close>, which converts to NaN; extra arguments are ignored.\<close>

definition argument :: "jsvalue list \<Rightarrow> nat \<Rightarrow> jsnum" where
  "argument vs i = (if i < length vs then toNumber (vs ! i) else NaN)"

fun applyMath :: "mathFunction \<Rightarrow> jsvalue list \<Rightarrow> jsnum outcome" where
  "applyMath MathPow vs = mathPow (argument vs 0) (argument vs 1)"
| "applyMath MathSqrt vs = mathSqrt (argument vs 0)"
| "applyMath MathSin vs = mathSin (argument vs 0)"
| "applyMath MathCos vs = mathCos (argument vs 0)"
| "applyMath MathTan vs = mathTan (argument vs 0)"
| "applyMath MathLog vs = mathLog (argument vs 0)"
| "applyMath MathLog10 vs = mathLog10 (argument vs 0)"
| "applyMath MathAbs vs = mathAbs (argument vs 0)"

fun callValue :: "jsvalue \<Rightarrow> jsvalue list \<Rightarrow> jsvalue outcome" where
  "callValue (VBuiltin f) vs = bind (applyMath f vs) (\<lambda>x. Ok (VNumber x))"
| "callValue v vs = Throws TypeError"

text \<open>
  Binary \<open>+\<close> adds numbers; with an object operand it would concatenate strings, which
  is outside the model. The other operators convert both operands to numbers.
\<close>

fun isPrimitive :: "jsvalue \<Rightarrow> bool" where
  "isPrimitive (VNumber x) = True"
| "isPrimitive VUndefined = True"
| "isPrimitive v = False"

fun applyOperator :: "operator \<Rightarrow> jsvalue \<Rightarrow> jsvalue \<Rightarrow> jsnum outcome" where
  "applyOperator Add a b =
     (if isPrimitive a \<and> isPrimitive b then jsAdd (toNumber a) (toNumber b) else Unmodelled)"
| "applyOperator Subtract a b = jsSubtract (toNumber a) (toNumber b)"
| "applyOperator Multiply a b = jsMultiply (toNumber a) (toNumber b)"
| "applyOperator Divide a b = jsDivide (toNumber a) (toNumber b)"

text \<open>
  Evaluation is left to right: the callee before the arguments, the arguments before
  the test that the callee is a function.
\<close>

function evaluate :: "expr \<Rightarrow> jsvalue outcome"
  and evaluateAll :: "expr list \<Rightarrow> jsvalue list outcome"
where
  "evaluate (ELiteral w f) = bind (literalValue w f) (\<lambda>x. Ok (VNumber x))"
| "evaluate (EName x) = globalValue x"
| "evaluate (EMember e x) = bind (evaluate e) (\<lambda>v. getProperty v x)"
| "evaluate (ECall f args) =
     bind (evaluate f) (\<lambda>fv. bind (evaluateAll args) (\<lambda>vs. callValue fv vs))"
| "evaluate (ENegate e) = bind (evaluate e) (\<lambda>v. Ok (VNumber (jsNegate (toNumber v))))"
| "evaluate (EPlus e) = bind (evaluate e) (\<lambda>v. Ok (VNumber (toNumber v)))"
| "evaluate (EBinary op a b) =
     bind (evaluate a) (\<lambda>x. bind (evaluate b) (\<lambda>y. bind (applyOperator op x y) (\<lambda>z. Ok (VNumber z))))"
| "evaluateAll [] = Ok []"
| "evaluateAll (e # es) = bind (evaluate e) (\<lambda>v. bind (evaluateAll es) (\<lambda>vs. Ok (v # vs)))"
  by pat_completeness auto
termination
  by (relation "measure (case_sum size (size_list size))") simp_all

text \<open>\<open>new Function(`return ${evalExpr}`)()\<close>: parse the body, then run it.\<close>

definition runFunction :: "jstring \<Rightarrow> jsvalue outcome" where
  "runFunction evalExpr =
     bind (tokenize None evalExpr)
       (\<lambda>ts. bind (parseProgram ts)
                (\<lambda>body. case body of None \<Rightarrow> Ok VUndefined | Some e \<Rightarrow> evaluate e))"

section \<open>The calculator\<close>

text \<open>The four \<open>useState\<close> cells of \<open>App\<close>, with their initial values.\<close>

record state =
  expression :: jstring
  displayValue :: jstring
  isRad :: bool
  history :: jstring

definition initialState :: state where
  "initialState = \<lparr>expression = [], displayValue = js ''0'', isRad = False, history = []\<rparr>"

definition operators :: "jstring list" where
  "operators = [js ''+'', js ''-'', js ''*'', js ''/'', js ''^'']"

definition handleInput :: "jstring \<Rightarrow> state \<Rightarrow> state" where
  "handleInput val st =
     (if displayValue st = js ''Error'' then st\<lparr>expression := val, displayValue := val\<rparr>
      else
        let nextExpr = (if expression st = displayValue st \<and> val \<notin> set operators then val
                        else expression st @ val)
        in st\<lparr>expression := nextExpr, displayValue := nextExpr\<rparr>)"

definition handleClear :: "state \<Rightarrow> state" where
  "handleClear st = st\<lparr>expression := [], displayValue := js ''0'', history := []\<rparr>"

text \<open>\<open>expression.slice(0, -1)\<close> drops the last code unit; on the empty string it is empty.\<close>

definition handleDelete :: "state \<Rightarrow> state" where
  "handleDelete st =
     (if displayValue st = js ''Error'' then handleClear st
      else
        let newExpr = butlast (expression st)
        in st\<lparr>expression := newExpr, displayValue := (if newExpr = [] then js ''0'' else newExpr)\<rparr>)"

text \<open>The click handler of the mode indicator, \<open>setIsRad(!isRad)\<close>.\<close>

definition toggleAngleUnit :: "state \<Rightarrow> state" where
  "toggleAngleUnit st = st\<lparr>isRad := \<not> isRad st\<rparr>"

text \<open>
  The \<open>try\<close> block of \<open>handleCalculate\<close> up to \<open>String(finalResult)\<close>: normalise, run,
  round to nine decimals. It ends with the text to show, or with an exception.
\<close>

definition billion :: jsnum where
  "billion = Sgn False (Finite 1000000000)"

definition tryBlock :: "bool \<Rightarrow> jstring \<Rightarrow> jstring outcome" where
  "tryBlock rad expr =
     bind (runFunction (normalizeExpr rad expr))
       (\<lambda>result. bind (jsMultiply (toNumber result) billion)
          (\<lambda>scaled. bind (jsDivide (mathRound scaled) billion)
             (\<lambda>finalResult. Ok (numberToString finalResult))))"

text \<open>The three setters at the end of the \<open>try\<close> block, and the \<open>catch\<close> block.\<close>

definition showResult :: "jstring \<Rightarrow> state \<Rightarrow> state" where
  "showResult shown st = st\<lparr>history := expression st, displayValue := shown, expression := shown\<rparr>"

definition showError :: "state \<Rightarrow> state" where
  "showError st = st\<lparr>displayValue := js ''Error'', expression := []\<rparr>"

text \<open>\<open>handleCalculate\<close> is \<open>None\<close> where the evaluation lies outside the model.\<close>

definition handleCalculate :: "state \<Rightarrow> state option" where
  "handleCalculate st =
     (case tryBlock (isRad st) (expression st) of
        Ok shown \<Rightarrow> Some (showResult shown st)
      | Throws e \<Rightarrow> Some (showError st)
      | Unmodelled \<Rightarrow> None)"

text \<open>The display agrees with the buffer, or the buffer is empty under a fixed marker.\<close>

definition displayConsistent :: "state \<Rightarrow> bool" where
  "displayConsistent st =
     (displayValue st = expression st \<or>
      (expression st = [] \<and> (displayValue st = js ''0'' \<or> displayValue st = js ''Error'')))"

section \<open>Facts about the handlers\<close>

lemma js_Error_not_empty: "js ''Error'' \<noteq> []"
  by (simp add: js_def)

lemma handleInput_synchronises: "displayValue (handleInput val st) = expression (handleInput val st)"
  by (simp add: handleInput_def Let_def)

text \<open>
  Once display and buffer agree (as they do after every input and after every result),
  a token that is not an operator replaces the buffer; it is not appended.
\<close>

lemma handleInput_replaces:
  assumes "displayValue st = expression st" and "displayValue st \<noteq> js ''Error''"
    and "val \<notin> set operators"
  shows "expression (handleInput val st) = val"
  using assms by (simp add: handleInput_def Let_def)

lemma handleInput_appends_operator:
  assumes "displayValue st \<noteq> js ''Error''" and "val \<in> set operators"
  shows "expression (handleInput val st) = expression st @ val"
  using assms by (simp add: handleInput_def Let_def)

lemma displayConsistent_showResult: "displayConsistent (showResult shown st)"
  by (simp add: displayConsistent_def showResult_def)

lemma displayConsistent_showError: "displayConsistent (showError st)"
  by (simp add: displayConsistent_def showError_def)

lemma displayConsistent_handleCalculate:
  "handleCalculate st = Some st' \<Longrightarrow> displayConsistent st'"
  by (auto simp: handleCalculate_def displayConsistent_showResult displayConsistent_showError
           split: outcome.splits)

lemma handleCalculate_four:
  "handleCalculate \<lparr>expression = js ''4'', displayValue = js ''4'', isRad = False, history = []\<rparr>
     = Some \<lparr>expression = js ''4'', displayValue = js ''4'', isRad = False, history = js ''4''\<rparr>"
  by code_simp

text \<open>\<open>String\<close> of a number is never the error marker.\<close>

lemma decimal_digits: "c \<in> set (decimal n) \<Longrightarrow> 48 \<le> c \<and> c \<le> 57"
proof (induction n arbitrary: c rule: decimal.induct)
  case (1 n)
  show ?case
  proof (cases "n < 10")
    case True
    with "1.prems" show ?thesis by (simp add: decimal.simps [of n])
  next
    case False
    with "1.prems" "1.IH" show ?thesis by (auto simp: decimal.simps [of n])
  qed
qed

lemma numberToString_not_Error: "numberToString x \<noteq> js ''Error''"
proof (cases x)
  case NaN
  then show ?thesis by (simp add: js_def)
next
  case (Sgn s a)
  show ?thesis
  proof (cases a)
    case Infinite
    with Sgn show ?thesis by (simp add: js_def)
  next
    case (Finite n)
    have "decimal n \<noteq> js ''Error''"
    proof
      assume "decimal n = js ''Error''"
      then have "69 \<in> set (decimal n)" by (simp add: js_def)
      then show False using decimal_digits by fastforce
    qed
    with Sgn Finite show ?thesis by (simp add: js_def)
  qed
qed

text \<open>
  After a result \<open>shown\<close>, an operator is appended to it; the next token that is not an
  operator then replaces the whole buffer.
\<close>

lemma operator_chains_onto_result:
  assumes "shown \<noteq> js ''Error''" and "op \<in> set operators"
  shows "expression (handleInput op (showResult shown st)) = shown @ op"
  using assms by (simp add: handleInput_def showResult_def Let_def)

lemma operator_text_not_Error:
  assumes "op \<in> set operators"
  shows "shown @ op \<noteq> js ''Error''"
proof
  assume eq: "shown @ op = js ''Error''"
  from assms have "op \<noteq> []" and "last op \<in> {43, 45, 42, 47, 94}"
    by (auto simp: operators_def js_def)
  then have "last (shown @ op) \<in> {43, 45, 42, 47, 94}"
    by simp
  with eq show False
    by (simp add: js_def)
qed

lemma operand_after_operator_is_not_appended:
  assumes "shown \<noteq> js ''Error''" and "op \<in> set operators" and "val \<notin> set operators"
  shows "expression (handleInput val (handleInput op (showResult shown st))) = val"
  using assms operator_text_not_Error [OF assms(2), of shown]
  by (simp add: handleInput_def showResult_def Let_def)

text \<open>
  So after every evaluation that succeeds, with whatever result, an operator is
  appended to the result and the operand entered next replaces both.
\<close>

lemma bind_Ok:
  assumes "bind m f = Ok y"
  obtains x where "m = Ok x" and "f x = Ok y"
  using assms by (cases m) simp_all

lemma tryBlock_shown_not_Error:
  assumes "tryBlock rad expr = Ok shown"
  shows "shown \<noteq> js ''Error''"
proof -
  from assms obtain result where
    "bind (jsMultiply (toNumber result) billion)
       (\<lambda>scaled. bind (jsDivide (mathRound scaled) billion)
          (\<lambda>finalResult. Ok (numberToString finalResult))) = Ok shown"
    unfolding tryBlock_def by (rule bind_Ok)
  then obtain scaled where
    "bind (jsDivide (mathRound scaled) billion) (\<lambda>finalResult. Ok (numberToString finalResult))
       = Ok shown"
    by (rule bind_Ok)
  then obtain finalResult where "Ok (numberToString finalResult) = Ok shown"
    by (rule bind_Ok)
  then show ?thesis
    using numberToString_not_Error [of finalResult] by simp
qed

lemma chaining_after_evaluation:
  assumes "tryBlock (isRad st) (expression st) = Ok shown"
    and "op \<in> set operators" and "val \<notin> set operators"
  shows "handleCalculate st = Some (showResult shown st)"
    and "expression (showResult shown st) = shown"
    and "expression (handleInput op (showResult shown st)) = shown @ op"
    and "expression (handleInput val (handleInput op (showResult shown st))) = val"
proof -
  from assms(1) have ok: "shown \<noteq> js ''Error''"
    by (rule tryBlock_shown_not_Error)
  show "handleCalculate st = Some (showResult shown st)"
    using assms(1) by (simp add: handleCalculate_def)
  show "expression (showResult shown st) = shown"
    by (simp add: showResult_def)
  show "expression (handleInput op (showResult shown st)) = shown @ op"
    using ok assms(2) by (rule operator_chains_onto_result)
  show "expression (handleInput val (handleInput op (showResult shown st))) = val"
    using ok assms(2,3) by (rule operand_after_operator_is_not_appended)
qed

text \<open>Evaluations used below, for either angle unit.\<close>

lemma tryBlock_five_by_zero: "tryBlock rad (js ''5/0'') = Ok (js ''Infinity'')"
proof (cases rad)
  case True
  have "tryBlock True (js ''5/0'') = Ok (js ''Infinity'')" by code_simp
  with True show ?thesis by simp
next
  case False
  have "tryBlock False (js ''5/0'') = Ok (js ''Infinity'')" by code_simp
  with False show ?thesis by simp
qed




lemma tryBlock_five_plus: "tryBlock rad (js ''5+'') = Throws SyntaxError"
proof (cases rad)
  case True
  have "tryBlock True (js ''5+'') = Throws SyntaxError" by code_simp
  with True show ?thesis by simp
next
  case False
  have "tryBlock False (js ''5+'') = Throws SyntaxError" by code_simp
  with False show ?thesis by simp
qed

lemma tryBlock_natural_log: "tryBlock rad (js ''ln(e)'') = Throws TypeError"
proof (cases rad)
  case True
  have "tryBlock True (js ''ln(e)'') = Throws TypeError" by code_simp
  with True show ?thesis by simp
next
  case False
  have "tryBlock False (js ''ln(e)'') = Throws TypeError" by code_simp
  with False show ?thesis by simp
qed


text \<open>
  \<open>sin(0+0)\<close> is not of the shape the degree conversion looks for, so under Degree the
  name \<open>sin\<close> stays bare and reading it throws; under Radian the text becomes
  \<open>Math.sin(0+0)\<close>, which is 0.
\<close>

lemma tryBlock_sine_of_sum_degree: "tryBlock False (js ''sin(0+0)'') = Throws ReferenceError"
  by code_simp

lemma tryBlock_sine_of_sum_radian: "tryBlock True (js ''sin(0+0)'') = Ok (js ''0'')"
  by code_simp

text \<open>
  The same text \<open>sin(90)\<close> is normalised to different programs under the two units. Their
  values are those of \<open>Math.sin\<close> on doubles that are not integers, which the number
  model does not hold.
\<close>

lemma sine_normal_forms:
  "normalizeExpr False (js ''sin(90)'') = js ''Math.sin((90) * Math.PI / 180)'' \<and>
   normalizeExpr True (js ''sin(90)'') = js ''Math.sin(90)''"
  by code_simp

subsection \<open>The power pattern on plain numbers\<close>

text \<open>
  A replaced match that reaches the end of the text leaves nothing to scan but the end
  itself. A run of class members followed by a code unit outside the class is taken
  whole by the first alternative of a greedy \<open>+\<close>.
\<close>

lemma replaceFrom_skip: "replaceFrom r rep (length xs) xs = replaceFrom r rep 0 []"
  by (induction xs) simp_all

lemma matches_Many_run:
  assumes "a \<noteq> []" and "\<forall>x \<in> set a. inClass k x" and "\<not> nextIs (inClass k) t"
  shows "\<exists>more. matches (Many k) (c, a @ t) = (c, t) # more"
proof -
  from assms(3) have "takeWhile (inClass k) t = []"
    by (cases t) simp_all
  with assms(2) have "takeWhile (inClass k) (a @ t) = a"
    by (simp add: takeWhile_append2)
  moreover from assms(1) have "Suc 0 \<le> length a"
    by (cases a) simp_all
  ultimately have "matches (Many k) (c, a @ t) =
      map (\<lambda>n. (c, drop n (a @ t))) (length a # rev [1 ..< length a])"
    by (simp del: drop_append)
  then show ?thesis
    by simp
qed

lemma matches_decimalNumber:
  assumes "a \<noteq> []" and "\<forall>x \<in> set a. inClass Digit x"
    and "\<not> nextIs (inClass Digit) t" and "\<not> nextIs (\<lambda>x. x = 46) t"
  shows "\<exists>more. matches (decimalNumber i j) (c, a @ t) = (c(i := a), t) # more"
proof -
  let ?fraction = "Grp j (Cat (Lit (js ''.'')) (Many Digit))"
  obtain more where run: "matches (Many Digit) (c, a @ t) = (c, t) # more"
    using matches_Many_run [OF assms(1-3)] by blast
  from assms(4) have no_dot: "matches (Lit (js ''.'')) (c, t) = []"
    by (cases t) (simp_all add: js_def)
  have skipped: "matches (Opt ?fraction) (c, t) = [(c, t)]"
    by (simp del: matches.simps add: matches.simps(3,5,6) no_dot)
  have "matches (Cat (Many Digit) (Opt ?fraction)) (c, a @ t)
          = (c, t) # concat (map (matches (Opt ?fraction)) more)"
    by (simp del: matches.simps add: matches.simps(3) run skipped)
  then show ?thesis
    by (simp del: matches.simps add: matches.simps(6) decimalNumber_def)
qed

lemma matches_powerPattern:
  assumes "a \<noteq> []" and "\<forall>x \<in> set a. inClass Digit x"
    and "b \<noteq> []" and "\<forall>x \<in> set b. inClass Digit x"
  shows "\<exists>more. matches powerPattern (c, a @ js ''^'' @ b) = (c(1 := a, 3 := b), []) # more"
proof -
  define c1 where "c1 = c(1 := a)"
  obtain m1 where left: "matches (decimalNumber 1 2) (c, a @ js ''^'' @ b) = (c1, js ''^'' @ b) # m1"
    using matches_decimalNumber [OF assms(1,2), of "js ''^'' @ b" 1 2 c]
    unfolding c1_def by (auto simp: js_def)
  obtain m2 where right: "matches (decimalNumber 3 4) (c1, b) = (c1(3 := b), []) # m2"
    using matches_decimalNumber [OF assms(3,4), of "[]" 3 4 c1] by auto
  have caret: "matches (Lit (js ''^'')) (c1, js ''^'' @ b) = [(c1, b)]"
    by (simp add: js_def)
  have tail: "matches (Cat (Lit (js ''^'')) (decimalNumber 3 4)) (c1, js ''^'' @ b) = (c1(3 := b), []) # m2"
    by (simp del: matches.simps add: matches.simps(3) caret right)
  have "matches powerPattern (c, a @ js ''^'' @ b)
          = (c1(3 := b), []) # m2 @
            concat (map (matches (Cat (Lit (js ''^'')) (decimalNumber 3 4))) m1)"
    unfolding powerPattern_def matches.simps(3) [of "decimalNumber 1 2"] left
    by (simp del: matches.simps add: tail)
  then show ?thesis
    unfolding c1_def by blast
qed

lemma rewritePower_integers:
  assumes "a \<noteq> []" and "\<forall>x \<in> set a. inClass Digit x"
    and "b \<noteq> []" and "\<forall>x \<in> set b. inClass Digit x"
  shows "rewritePower (a @ js ''^'' @ b) = js ''Math.pow('' @ a @ js '', '' @ b @ js '')''"
proof -
  obtain x xs where s: "a @ js ''^'' @ b = x # xs"
    using assms(1) by (cases a) auto
  obtain more where m: "matches powerPattern (\<lambda>_. [], x # xs) = ((\<lambda>_. [])(1 := a, 3 := b), []) # more"
    using matches_powerPattern [OF assms, of "\<lambda>_. []"] s by auto
  have no_match: "matches powerPattern (c, []) = []" for c
    unfolding powerPattern_def decimalNumber_def by simp
  have "replaceFrom powerPattern rep 0 (x # xs) = expand ((\<lambda>_. [])(1 := a, 3 := b)) rep" for rep
    by (simp del: matches.simps add: m replaceFrom_skip no_match)
  then show ?thesis
    by (simp add: rewritePower_def replaceAll_def s)
qed

subsection \<open>The root patterns\<close>

text \<open>
  Both root patterns begin with the radical sign, so a text without it is left as it
  is. The form with parentheses captures everything up to the first \<open>)\<close>; the form
  with bare digits captures the whole run of digits.
\<close>

lemma matches_other_start:
  assumes "\<not> nextIs (\<lambda>y. y = x) s"
  shows "matches (Cat (Lit [x]) r) (c, s) = []"
  using assms by (cases s) (simp_all del: matches.simps add: matches.simps(1,3))

lemma replaceFrom_absent:
  assumes "x \<notin> set s"
  shows "replaceFrom (Cat (Lit [x]) r) rep 0 s = s"
  using assms
proof (induction s)
  case Nil
  then show ?case
    by (simp del: matches.simps One_nat_def add: matches_other_start)
next
  case (Cons y ys)
  then have "matches (Cat (Lit [x]) r) (\<lambda>_. [], y # ys) = []"
    by (intro matches_other_start) auto
  with Cons show ?case
    by (simp del: matches.simps One_nat_def)
qed

lemma matches_rootGroupPattern:
  assumes "body \<noteq> []" and "41 \<notin> set body"
  shows "\<exists>more. matches rootGroupPattern (c, radicalSign # js ''('' @ body @ js '')'')
                  = (c(1 := body), []) # more"
proof -
  let ?inner = "Cat (Grp 1 (Many NotCloseParen)) (Lit (js '')''))"
  define c1 where "c1 = c(1 := body)"
  from assms(2) have inside: "\<forall>x \<in> set body. inClass NotCloseParen x"
    by auto
  have stop: "\<not> nextIs (inClass NotCloseParen) (js '')'')"
    by (simp add: js_def)
  obtain m where run: "matches (Many NotCloseParen) (c, body @ js '')'') = (c, js '')'') # m"
    using matches_Many_run [OF assms(1) inside stop] by blast
  obtain m1 where grp: "matches (Grp 1 (Many NotCloseParen)) (c, body @ js '')'') = (c1, js '')'') # m1"
    unfolding c1_def by (simp del: matches.simps One_nat_def add: matches.simps(6) run)
  have close: "matches (Lit (js '')'')) (c1, js '')'') = [(c1, [])]"
    by (simp add: js_def)
  obtain m2 where inner: "matches ?inner (c, body @ js '')'') = (c1, []) # m2"
    unfolding matches.simps(3) [of "Grp 1 (Many NotCloseParen)"] grp
    by (simp del: matches.simps One_nat_def add: close)
  have sign: "matches (Lit [radicalSign]) (c, radicalSign # js ''('' @ body @ js '')'')
                = [(c, js ''('' @ body @ js '')'')]"
    by simp
  have paren: "matches (Lit (js ''('')) (c, js ''('' @ body @ js '')'') = [(c, body @ js '')'')]"
    by (simp add: js_def)
  have rest: "matches (Cat (Lit (js ''('')) ?inner) (c, js ''('' @ body @ js '')'') = (c1, []) # m2"
    unfolding matches.simps(3) [of "Lit (js ''('')"] paren
    by (simp del: matches.simps One_nat_def add: inner)
  have "matches rootGroupPattern (c, radicalSign # js ''('' @ body @ js '')'') = (c1, []) # m2"
    unfolding rootGroupPattern_def matches.simps(3) [of "Lit [radicalSign]"] sign
    by (simp del: matches.simps One_nat_def add: rest)
  then show ?thesis
    unfolding c1_def by blast
qed

lemma matches_rootDigitsPattern:
  assumes "d \<noteq> []" and "\<forall>x \<in> set d. inClass Digit x"
  shows "\<exists>more. matches rootDigitsPattern (c, radicalSign # d) = (c(1 := d), []) # more"
proof -
  define c1 where "c1 = c(1 := d)"
  have "\<not> nextIs (inClass Digit) []"
    by simp
  from matches_Many_run [OF assms this, of c]
  obtain m where run: "matches (Many Digit) (c, d) = (c, []) # m"
    unfolding append_Nil2 by blast
  have sign: "matches (Lit [radicalSign]) (c, radicalSign # d) = [(c, d)]"
    by simp
  obtain m1 where grp: "matches (Grp 1 (Many Digit)) (c, d) = (c1, []) # m1"
    unfolding c1_def by (simp del: matches.simps One_nat_def add: matches.simps(6) run)
  have "matches rootDigitsPattern (c, radicalSign # d) = (c1, []) # m1"
    unfolding rootDigitsPattern_def matches.simps(3) [of "Lit [radicalSign]"] sign
    by (simp del: matches.simps One_nat_def add: grp)
  then show ?thesis
    unfolding c1_def by blast
qed

lemma radicalSign_not_ascii: "radicalSign \<notin> set (js w)"
proof
  assume "radicalSign \<in> set (js w)"
  then obtain ch :: char where "radicalSign = of_char ch"
    by (auto simp: js_def)
  moreover have "of_char ch < (256 :: nat)"
    by (rule nat_of_char_less_256)
  ultimately show False
    by (simp add: radicalSign_def)
qed

lemma rewriteRoot_group:
  assumes "body \<noteq> []" and "41 \<notin> set body" and "radicalSign \<notin> set body"
  shows "rewriteRoot (radicalSign # js ''('' @ body @ js '')'') = js ''Math.sqrt('' @ body @ js '')''"
proof -
  let ?rep = "[Txt (js ''Math.sqrt(''), Ref 1, Txt (js '')'')]"
  define rest where "rest = js ''('' @ body @ js '')''"
  obtain more where m: "matches rootGroupPattern (\<lambda>_. [], radicalSign # rest)
                          = ((\<lambda>_. [])(1 := body), []) # more"
    using matches_rootGroupPattern [OF assms(1,2), of "\<lambda>_. []"] unfolding rest_def by blast
  have no_match: "matches rootGroupPattern (c, []) = []" for c
    unfolding rootGroupPattern_def by simp
  have "replaceAll rootGroupPattern ?rep (radicalSign # rest) = js ''Math.sqrt('' @ body @ js '')''"
    unfolding replaceAll_def
    by (simp del: matches.simps One_nat_def add: m replaceFrom_skip no_match)
  then have first: "replaceAll rootGroupPattern ?rep (radicalSign # js ''('' @ body @ js '')'')
                      = js ''Math.sqrt('' @ body @ js '')''"
    unfolding rest_def .
  from assms(3) have "radicalSign \<notin> set (js ''Math.sqrt('' @ body @ js '')'')"
    by (simp add: radicalSign_not_ascii)
  then have "replaceAll rootDigitsPattern ?rep (js ''Math.sqrt('' @ body @ js '')'')
               = js ''Math.sqrt('' @ body @ js '')''"
    unfolding replaceAll_def rootDigitsPattern_def by (rule replaceFrom_absent)
  with first show ?thesis
    by (simp add: rewriteRoot_def)
qed

lemma rewriteRoot_digits:
  assumes "d \<noteq> []" and "\<forall>x \<in> set d. inClass Digit x"
  shows "rewriteRoot (radicalSign # d) = js ''Math.sqrt('' @ d @ js '')''"
proof -
  let ?rep = "[Txt (js ''Math.sqrt(''), Ref 1, Txt (js '')'')]"
  from assms obtain y ys where d: "d = y # ys" and y: "inClass Digit y"
    by (cases d) auto
  from assms(2) have absent: "radicalSign \<notin> set d"
    by (auto simp: radicalSign_def)
  have "matches (Lit (js ''('')) (c, d) = []" for c
    using y unfolding d by (auto simp: js_def)
  then have "matches rootGroupPattern (\<lambda>_. [], radicalSign # d) = []"
    unfolding rootGroupPattern_def by (simp del: One_nat_def)
  moreover have "replaceFrom rootGroupPattern ?rep 0 d = d"
    using absent unfolding rootGroupPattern_def by (rule replaceFrom_absent)
  ultimately have first: "replaceAll rootGroupPattern ?rep (radicalSign # d) = radicalSign # d"
    unfolding replaceAll_def by (simp del: matches.simps)
  obtain more where m: "matches rootDigitsPattern (\<lambda>_. [], radicalSign # d) = ((\<lambda>_. [])(1 := d), []) # more"
    using matches_rootDigitsPattern [OF assms, of "\<lambda>_. []"] by blast
  have no_match: "matches rootDigitsPattern (c, []) = []" for c
    unfolding rootDigitsPattern_def by simp
  have "replaceAll rootDigitsPattern ?rep (radicalSign # d) = js ''Math.sqrt('' @ d @ js '')''"
    unfolding replaceAll_def
    by (simp del: matches.simps One_nat_def add: m replaceFrom_skip no_match)
  with first show ?thesis
    by (simp add: rewriteRoot_def)
qed

section \<open>The claims\<close>

text \<open>
  Claim C10. After each of \<open>handleInput\<close>, \<open>handleDelete\<close>, \<open>handleClear\<close> and
  \<open>handleCalculate\<close>, from any state, the display equals the expression buffer, or the
  buffer is empty and the display is \<open>0\<close> or \<open>Error\<close>. For \<open>handleCalculate\<close> this is
  shown for both of its exits with any result text, and so for every state it returns.
\<close>

theorem display_consistent_after_operation:
  "displayConsistent (handleInput val st) \<and>
   displayConsistent (handleDelete st) \<and>
   displayConsistent (handleClear st) \<and>
   displayConsistent (showResult shown st) \<and>
   displayConsistent (showError st) \<and>
   (\<forall>st'. handleCalculate st = Some st' \<longrightarrow> displayConsistent st')"
proof (intro conjI allI impI)
  show "displayConsistent (handleInput val st)"
    by (simp add: displayConsistent_def handleInput_def Let_def)
  show "displayConsistent (handleDelete st)"
    by (simp add: displayConsistent_def handleDelete_def handleClear_def Let_def)
  show "displayConsistent (handleClear st)"
    by (simp add: displayConsistent_def handleClear_def)
  show "displayConsistent (showResult shown st)"
    by (rule displayConsistent_showResult)
  show "displayConsistent (showError st)"
    by (rule displayConsistent_showError)
  show "displayConsistent st'" if "handleCalculate st = Some st'" for st'
    using that by (rule displayConsistent_handleCalculate)
qed

theorem display_consistent_after_operation_witness:
  "handleCalculate \<lparr>expression = js ''4'', displayValue = js ''4'', isRad = False, history = []\<rparr>
     = Some \<lparr>expression = js ''4'', displayValue = js ''4'', isRad = False, history = js ''4''\<rparr> \<and>
   displayConsistent \<lparr>expression = js ''4'', displayValue = js ''4'', isRad = False, history = js ''4''\<rparr>"
  using display_consistent_after_operation
    [of "[]" "\<lparr>expression = js ''4'', displayValue = js ''4'', isRad = False, history = []\<rparr>" "[]"]
    handleCalculate_four
  by simp

text \<open>
  Claim C9. The angle unit starts as Degree. \<open>toggleAngleUnit\<close> flips the flag and leaves
  the buffer, the display and the history as they are; the input handlers do not read
  the flag (they commute with the toggle), and \<open>handleCalculate\<close> normalises with the
  flag as it stands when it is called. So a toggle between input and evaluation
  changes that evaluation: with \<open>sin(0+0)\<close> entered in the initial state,
  \<open>handleCalculate\<close> shows \<open>Error\<close> (Degree leaves \<open>sin\<close> bare), and after a toggle it
  shows \<open>0\<close> (Radian runs \<open>Math.sin(0+0)\<close>); likewise \<open>sin(90)\<close> is run as
  \<open>Math.sin((90) * Math.PI / 180)\<close> before the toggle and as \<open>Math.sin(90)\<close> after it.
  A toggle after the evaluation changes nothing but the flag of the state it left.
\<close>

theorem toggle_changes_only_unit:
  "isRad initialState = False \<and>
   expression (toggleAngleUnit st) = expression st \<and>
   displayValue (toggleAngleUnit st) = displayValue st \<and>
   history (toggleAngleUnit st) = history st \<and>
   isRad (toggleAngleUnit st) = (\<not> isRad st) \<and>
   handleInput val (toggleAngleUnit st) = toggleAngleUnit (handleInput val st) \<and>
   handleDelete (toggleAngleUnit st) = toggleAngleUnit (handleDelete st) \<and>
   handleClear (toggleAngleUnit st) = toggleAngleUnit (handleClear st) \<and>
   handleCalculate (toggleAngleUnit st) =
     (case tryBlock (\<not> isRad st) (expression st) of
        Ok shown \<Rightarrow> Some (toggleAngleUnit (showResult shown st))
      | Throws e \<Rightarrow> Some (toggleAngleUnit (showError st))
      | Unmodelled \<Rightarrow> None) \<and>
   normalizeExpr (isRad initialState) (js ''sin(90)'') = js ''Math.sin((90) * Math.PI / 180)'' \<and>
   normalizeExpr (isRad (toggleAngleUnit initialState)) (js ''sin(90)'') = js ''Math.sin(90)'' \<and>
   tryBlock False (js ''sin(0+0)'') = Throws ReferenceError \<and>
   tryBlock True (js ''sin(0+0)'') = Ok (js ''0'') \<and>
   handleCalculate (handleInput (js ''sin(0+0)'') initialState)
     = Some \<lparr>expression = [], displayValue = js ''Error'', isRad = False, history = []\<rparr> \<and>
   handleCalculate (toggleAngleUnit (handleInput (js ''sin(0+0)'') initialState))
     = Some \<lparr>expression = js ''0'', displayValue = js ''0'', isRad = True,
              history = js ''sin(0+0)''\<rparr> \<and>
   toggleAngleUnit \<lparr>expression = js ''0'', displayValue = js ''0'', isRad = True,
                    history = js ''sin(0+0)''\<rparr>
     = \<lparr>expression = js ''0'', displayValue = js ''0'', isRad = False, history = js ''sin(0+0)''\<rparr>"
proof -
  have flags: "isRad initialState = False" "isRad (toggleAngleUnit initialState) = True"
    by (simp_all add: initialState_def toggleAngleUnit_def)
  have entered: "handleInput (js ''sin(0+0)'') initialState
                   = \<lparr>expression = js ''sin(0+0)'', displayValue = js ''sin(0+0)'', isRad = False,
                       history = []\<rparr>"
    by (simp add: handleInput_def initialState_def Let_def)
  have degree: "handleCalculate (handleInput (js ''sin(0+0)'') initialState)
                  = Some \<lparr>expression = [], displayValue = js ''Error'', isRad = False, history = []\<rparr>"
    unfolding entered
    by (simp add: handleCalculate_def tryBlock_sine_of_sum_degree showError_def)
  have radian: "handleCalculate (toggleAngleUnit (handleInput (js ''sin(0+0)'') initialState))
                  = Some \<lparr>expression = js ''0'', displayValue = js ''0'', isRad = True,
                           history = js ''sin(0+0)''\<rparr>"
    unfolding entered
    by (simp add: handleCalculate_def toggleAngleUnit_def tryBlock_sine_of_sum_radian showResult_def)
  have frame: "handleCalculate (toggleAngleUnit st) =
     (case tryBlock (\<not> isRad st) (expression st) of
        Ok shown \<Rightarrow> Some (toggleAngleUnit (showResult shown st))
      | Throws e \<Rightarrow> Some (toggleAngleUnit (showError st))
      | Unmodelled \<Rightarrow> None)"
    by (simp add: toggleAngleUnit_def handleCalculate_def showResult_def showError_def
        split: outcome.splits)
  show ?thesis
    using flags sine_normal_forms tryBlock_sine_of_sum_degree tryBlock_sine_of_sum_radian
      degree radian frame
    by (simp add: toggleAngleUnit_def handleInput_def handleDelete_def handleClear_def Let_def)
qed

text \<open>
  Claim C1, as the code has it. For the buffer \<open>5/0\<close> nothing is thrown: the division
  yields \<open>Infinity\<close>, rounding keeps it, and \<open>handleCalculate\<close> shows it as a result. The
  display and the buffer become \<open>Infinity\<close> and the history becomes \<open>5/0\<close>, under either
  angle unit and whatever was displayed before.
\<close>

theorem division_by_zero_shows_infinity:
  "tryBlock rad (js ''5/0'') = Ok (js ''Infinity'') \<and>
   handleCalculate \<lparr>expression = js ''5/0'', displayValue = d, isRad = rad, history = h\<rparr>
     = Some \<lparr>expression = js ''Infinity'', displayValue = js ''Infinity'', isRad = rad,
              history = js ''5/0''\<rparr>"
  by (simp add: handleCalculate_def tryBlock_five_by_zero showResult_def)

text \<open>
  The run that refutes claim C1 as stated: from the state in which \<open>5/0\<close> has been
  entered, the display after \<open>handleCalculate\<close> is \<open>Infinity\<close>, not the error marker.
\<close>

theorem division_by_zero_not_error:
  "handleCalculate \<lparr>expression = js ''5/0'', displayValue = js ''5/0'', isRad = False, history = []\<rparr>
     = Some \<lparr>expression = js ''Infinity'', displayValue = js ''Infinity'', isRad = False,
              history = js ''5/0''\<rparr> \<and>
   js ''Infinity'' \<noteq> js ''Error''"
  by (simp add: handleCalculate_def tryBlock_five_by_zero showResult_def) (simp add: js_def)

text \<open>
  Claim C2. \<open>log(100)\<close> is normalised to \<open>Math.log10(100)\<close> and evaluates to \<open>2\<close>. For
  \<open>ln(e)\<close> the claim expects \<open>1\<close>, but the code fails: the pass for \<open>log\<close> turns
  \<open>ln(\<close> into \<open>Math.log(\<close>, and the pass for \<open>log10\<close> that follows finds \<open>log(\<close> inside
  that text and rewrites it again. The program run is \<open>Math.Math.log10(Math.E)\<close>; reading
  \<open>log10\<close> from the undefined \<open>Math.Math\<close> throws, and the calculator shows \<open>Error\<close>.
\<close>

theorem natural_log_rewritten_twice:
  "normalizeExpr False (js ''log(100)'') = js ''Math.log10(100)'' \<and>
   tryBlock False (js ''log(100)'') = Ok (js ''2'') \<and>
   substituteSymbols (js ''ln(e)'') = js ''ln(Math.E)'' \<and>
   convertFunc False ''log'' (js ''ln(Math.E)'') = js ''Math.log(Math.E)'' \<and>
   convertFunc False ''log10'' (js ''Math.log(Math.E)'') = js ''Math.Math.log10(Math.E)'' \<and>
   normalizeExpr False (js ''ln(e)'') = js ''Math.Math.log10(Math.E)'' \<and>
   runFunction (js ''Math.Math.log10(Math.E)'') = Throws TypeError \<and>
   handleCalculate \<lparr>expression = js ''ln(e)'', displayValue = js ''ln(e)'', isRad = False, history = []\<rparr>
     = Some \<lparr>expression = [], displayValue = js ''Error'', isRad = False, history = []\<rparr>"
  by code_simp

text \<open>
  Claim C3. From the initial state, entering \<open>4\<close> and evaluating leaves the buffer \<open>4\<close>,
  and the operator \<open>+\<close> makes it \<open>4+\<close>, as the claim says. The digit \<open>1\<close> that follows
  is not appended: display and buffer agree, so \<open>handleInput\<close> takes its reset branch and
  the buffer becomes \<open>1\<close>, where the claim expects \<open>4+1\<close>.
\<close>

theorem digit_after_operator_replaces_buffer:
  "handleCalculate (handleInput (js ''4'') initialState)
     = Some \<lparr>expression = js ''4'', displayValue = js ''4'', isRad = False, history = js ''4''\<rparr> \<and>
   handleInput (js ''+'') \<lparr>expression = js ''4'', displayValue = js ''4'', isRad = False, history = js ''4''\<rparr>
     = \<lparr>expression = js ''4+'', displayValue = js ''4+'', isRad = False, history = js ''4''\<rparr> \<and>
   handleInput (js ''1'') \<lparr>expression = js ''4+'', displayValue = js ''4+'', isRad = False, history = js ''4''\<rparr>
     = \<lparr>expression = js ''1'', displayValue = js ''1'', isRad = False, history = js ''4''\<rparr>"
  by code_simp



text \<open>
  Claim C5, as the code has it. The \<open>catch\<close> block, which every failed evaluation
  reaches whatever was thrown, shows \<open>Error\<close> and empties the buffer; it leaves the
  history and the angle unit as they were. \<open>handleCalculate\<close> ends in that state whenever
  the \<open>try\<close> block throws, as it does with a SyntaxError for \<open>5+\<close>, with a TypeError for
  \<open>ln(e)\<close> and with a ReferenceError for \<open>sin(0+0)\<close> under Degree.
\<close>

theorem failed_evaluation_state:
  "displayValue (showError st) = js ''Error'' \<and>
   expression (showError st) = [] \<and>
   history (showError st) = history st \<and>
   isRad (showError st) = isRad st \<and>
   (\<forall>e. tryBlock (isRad st) (expression st) = Throws e \<longrightarrow> handleCalculate st = Some (showError st)) \<and>
   tryBlock rad (js ''5+'') = Throws SyntaxError \<and>
   handleCalculate \<lparr>expression = js ''5+'', displayValue = d, isRad = rad, history = h\<rparr>
     = Some \<lparr>expression = [], displayValue = js ''Error'', isRad = rad, history = h\<rparr> \<and>
   tryBlock rad (js ''ln(e)'') = Throws TypeError \<and>
   handleCalculate \<lparr>expression = js ''ln(e)'', displayValue = d, isRad = rad, history = h\<rparr>
     = Some \<lparr>expression = [], displayValue = js ''Error'', isRad = rad, history = h\<rparr> \<and>
   tryBlock False (js ''sin(0+0)'') = Throws ReferenceError \<and>
   handleCalculate \<lparr>expression = js ''sin(0+0)'', displayValue = d, isRad = False, history = h\<rparr>
     = Some \<lparr>expression = [], displayValue = js ''Error'', isRad = False, history = h\<rparr>"
  by (simp add: handleCalculate_def showError_def tryBlock_five_plus tryBlock_natural_log
        tryBlock_sine_of_sum_degree)

theorem failed_evaluation_state_witness:
  "tryBlock False (js ''5+'') = Throws SyntaxError \<and>
   handleCalculate \<lparr>expression = js ''5+'', displayValue = js ''5+'', isRad = False, history = js ''5''\<rparr>
     = Some \<lparr>expression = [], displayValue = js ''Error'', isRad = False, history = js ''5''\<rparr>"
  using failed_evaluation_state
    [of "\<lparr>expression = js ''5+'', displayValue = js ''5+'', isRad = False, history = js ''5''\<rparr>"
        False "[]" "[]"]
  by (simp add: showError_def)

text \<open>
  The run that refutes claim C5 as stated: after \<open>5\<close>, \<open>=\<close>, \<open>+\<close>, \<open>=\<close> the evaluation of
  \<open>5+\<close> fails and the history is still \<open>5\<close>, not empty.
\<close>

theorem failed_evaluation_keeps_history:
  "handleCalculate \<lparr>expression = js ''5+'', displayValue = js ''5+'', isRad = False, history = js ''5''\<rparr>
     = Some \<lparr>expression = [], displayValue = js ''Error'', isRad = False, history = js ''5''\<rparr> \<and>
   js ''5'' \<noteq> []"
  by (simp add: handleCalculate_def tryBlock_five_plus showError_def) (simp add: js_def)

text \<open>
  Claim C7. \<open>2^10\<close> is rewritten to \<open>Math.pow(2, 10)\<close> and evaluates to \<open>1024\<close>. The
  pattern takes decimal numbers on both sides, with or without a fraction; an operand
  in parentheses on either side is left as it is. For any two digit strings \<open>a\<close> and
  \<open>b\<close>, the text \<open>a^b\<close> is rewritten to \<open>Math.pow(a, b)\<close>.
\<close>

theorem power_evaluates:
  "rewritePower (js ''2^10'') = js ''Math.pow(2, 10)'' \<and>
   normalizeExpr False (js ''2^10'') = js ''Math.pow(2, 10)'' \<and>
   tryBlock False (js ''2^10'') = Ok (js ''1024'') \<and>
   handleCalculate \<lparr>expression = js ''2^10'', displayValue = js ''2^10'', isRad = False, history = []\<rparr>
     = Some \<lparr>expression = js ''1024'', displayValue = js ''1024'', isRad = False, history = js ''2^10''\<rparr> \<and>
   rewritePower (js ''1.5^2.25'') = js ''Math.pow(1.5, 2.25)'' \<and>
   rewritePower (js ''(2)^10'') = js ''(2)^10'' \<and>
   rewritePower (js ''2^(10)'') = js ''2^(10)'' \<and>
   (a \<noteq> [] \<and> (\<forall>x \<in> set a. inClass Digit x) \<and> b \<noteq> [] \<and> (\<forall>x \<in> set b. inClass Digit x) \<longrightarrow>
      rewritePower (a @ js ''^'' @ b) = js ''Math.pow('' @ a @ js '', '' @ b @ js '')'')"
proof -
  have "rewritePower (js ''2^10'') = js ''Math.pow(2, 10)'' \<and>
        normalizeExpr False (js ''2^10'') = js ''Math.pow(2, 10)'' \<and>
        tryBlock False (js ''2^10'') = Ok (js ''1024'') \<and>
        handleCalculate \<lparr>expression = js ''2^10'', displayValue = js ''2^10'', isRad = False, history = []\<rparr>
          = Some \<lparr>expression = js ''1024'', displayValue = js ''1024'', isRad = False,
                   history = js ''2^10''\<rparr> \<and>
        rewritePower (js ''1.5^2.25'') = js ''Math.pow(1.5, 2.25)'' \<and>
        rewritePower (js ''(2)^10'') = js ''(2)^10'' \<and>
        rewritePower (js ''2^(10)'') = js ''2^(10)''"
    by code_simp
  then show ?thesis
    using rewritePower_integers [of a b] by blast
qed

theorem power_evaluates_witness:
  "js ''2'' \<noteq> [] \<and> list_all (inClass Digit) (js ''2'') \<and>
   js ''10'' \<noteq> [] \<and> list_all (inClass Digit) (js ''10'') \<and>
   rewritePower (js ''2'' @ js ''^'' @ js ''10'') = js ''Math.pow('' @ js ''2'' @ js '', '' @ js ''10'' @ js '')''"
proof -
  have digits: "js ''2'' \<noteq> [] \<and> (\<forall>x \<in> set (js ''2''). inClass Digit x) \<and>
                js ''10'' \<noteq> [] \<and> (\<forall>x \<in> set (js ''10''). inClass Digit x)"
    by (simp add: js_def)
  with power_evaluates [of "js ''2''" "js ''10''"] show ?thesis
    by (simp add: list_all_iff)
qed

text \<open>
  Claim C8. Both the form with parentheses and the form with bare digits of the root
  of 16 are rewritten to \<open>Math.sqrt(16)\<close>, and both evaluate to \<open>4\<close>. In general the
  radical sign before a parenthesised text without \<open>)\<close>, and the radical sign before a
  run of digits, are rewritten to a call of \<open>Math.sqrt\<close> on that text.
\<close>

theorem square_root_evaluates:
  "normalizeExpr False (radicalSign # js ''(16)'') = js ''Math.sqrt(16)'' \<and>
   normalizeExpr False (radicalSign # js ''16'') = js ''Math.sqrt(16)'' \<and>
   tryBlock False (radicalSign # js ''(16)'') = Ok (js ''4'') \<and>
   tryBlock False (radicalSign # js ''16'') = Ok (js ''4'') \<and>
   handleCalculate \<lparr>expression = radicalSign # js ''(16)'', displayValue = radicalSign # js ''(16)'',
                    isRad = False, history = []\<rparr>
     = Some \<lparr>expression = js ''4'', displayValue = js ''4'', isRad = False,
              history = radicalSign # js ''(16)''\<rparr> \<and>
   handleCalculate \<lparr>expression = radicalSign # js ''16'', displayValue = radicalSign # js ''16'',
                    isRad = False, history = []\<rparr>
     = Some \<lparr>expression = js ''4'', displayValue = js ''4'', isRad = False,
              history = radicalSign # js ''16''\<rparr> \<and>
   (body \<noteq> [] \<and> 41 \<notin> set body \<and> radicalSign \<notin> set body \<longrightarrow>
      rewriteRoot (radicalSign # js ''('' @ body @ js '')'') = js ''Math.sqrt('' @ body @ js '')'') \<and>
   (d \<noteq> [] \<and> (\<forall>x \<in> set d. inClass Digit x) \<longrightarrow>
      rewriteRoot (radicalSign # d) = js ''Math.sqrt('' @ d @ js '')'')"
proof -
  have "normalizeExpr False (radicalSign # js ''(16)'') = js ''Math.sqrt(16)'' \<and>
        normalizeExpr False (radicalSign # js ''16'') = js ''Math.sqrt(16)'' \<and>
        tryBlock False (radicalSign # js ''(16)'') = Ok (js ''4'') \<and>
        tryBlock False (radicalSign # js ''16'') = Ok (js ''4'') \<and>
        handleCalculate \<lparr>expression = radicalSign # js ''(16)'', displayValue = radicalSign # js ''(16)'',
                         isRad = False, history = []\<rparr>
          = Some \<lparr>expression = js ''4'', displayValue = js ''4'', isRad = False,
                   history = radicalSign # js ''(16)''\<rparr> \<and>
        handleCalculate \<lparr>expression = radicalSign # js ''16'', displayValue = radicalSign # js ''16'',
                         isRad = False, history = []\<rparr>
          = Some \<lparr>expression = js ''4'', displayValue = js ''4'', isRad = False,
                   history = radicalSign # js ''16''\<rparr>"
    by code_simp
  then show ?thesis
    using rewriteRoot_group [of body] rewriteRoot_digits [of d] by blast
qed

theorem square_root_evaluates_witness:
  "js ''16'' \<noteq> [] \<and> 41 \<notin> set (js ''16'') \<and> radicalSign \<notin> set (js ''16'') \<and>
   list_all (inClass Digit) (js ''16'') \<and>
   rewriteRoot (radicalSign # js ''('' @ js ''16'' @ js '')'') = js ''Math.sqrt('' @ js ''16'' @ js '')'' \<and>
   rewriteRoot (radicalSign # js ''16'') = js ''Math.sqrt('' @ js ''16'' @ js '')''"
proof -
  have "js ''16'' \<noteq> [] \<and> 41 \<notin> set (js ''16'') \<and> radicalSign \<notin> set (js ''16'') \<and>
        (\<forall>x \<in> set (js ''16''). inClass Digit x)"
    by (simp add: js_def radicalSign_def)
  with square_root_evaluates [of "js ''16''" "js ''16''"] show ?thesis
    by (simp add: list_all_iff)
qed

end
